theory Spec2Isabelle
  imports Main "HOL-Library.Word"
begin

unbundle bit_operations_syntax

section \<open>The environment of \<^verbatim>\<open>landlock.c\<close>\<close>

text \<open>
  \<^verbatim>\<open>landlock.c\<close> is a thin layer over the kernel: every function reads the kernel
  release with \<^verbatim>\<open>uname\<close>, and the rule builders call \<^verbatim>\<open>open\<close>, \<^verbatim>\<open>close\<close>,
  \<^verbatim>\<open>access\<close>, \<^verbatim>\<open>prctl\<close> and the three Landlock system calls. The model keeps the
  program's own state (the static \<^verbatim>\<open>rset_fd\<close>, the fields of \<^verbatim>\<open>cfg\<close> it reads) in a
  record, and records every system call and every line written to \<^verbatim>\<open>stderr\<close> in a
  trace, in program order. The kernel is a parameter: each system call's result is a
  function of the trace so far and of the call's arguments, so that any deterministic
  kernel behaviour can be supplied.

  C \<^verbatim>\<open>int\<close> results are only ever compared with \<open>0\<close> and \<open>-1\<close> and passed on, so
  they are modelled as \<open>int\<close>; \<^verbatim>\<open>unsigned\<close> and \<^verbatim>\<open>__u32\<close> are \<open>32 word\<close>, \<^verbatim>\<open>__u64\<close>
  is \<open>64 word\<close>. Strings are NUL-free \<open>char list\<close>s.
\<close>

datatype event =
    Alloc string
  | CreateRuleset "64 word" int
  | Open string int
  | AddRule int int "64 word" int
  | Close int
  | Access string int
  | Prctl
  | RestrictSelf int "32 word" int
  | Stderr string

text \<open>How the process can end other than by returning.\<close>

datatype fatal =
    ErrExit string
  | Exit string int
  | AssertFail
  | OutOfBounds

record utsname =
  release :: string
  version :: string

record kernel =
  k_uname :: "utsname option"
  k_getuid :: "32 word"
  k_alloc :: "event list \<Rightarrow> bool"
  k_create_ruleset :: "event list \<Rightarrow> 64 word \<Rightarrow> int"
  k_open :: "event list \<Rightarrow> string \<Rightarrow> int"
  k_add_rule :: "event list \<Rightarrow> int \<Rightarrow> int \<Rightarrow> 64 word \<Rightarrow> int"
  k_access :: "event list \<Rightarrow> string \<Rightarrow> int"
  k_restrict_self :: "event list \<Rightarrow> int \<Rightarrow> 32 word \<Rightarrow> int"

record world =
  rset_fd :: int
  cfg_lprofile :: "string list"
  cfg_homedir :: "string option"
  trace :: "event list"

definition emit :: "event \<Rightarrow> world \<Rightarrow> world" where
  "emit e w = w\<lparr>trace := trace w @ [e]\<rparr>"

definition nl :: string where
  "nl = [CHR 0x0A]"

section \<open>The kernel capability probe\<close>

subsection \<open>\<^verbatim>\<open>sscanf(u.release, "%u.%u", &major, &minor)\<close>\<close>

text \<open>
  The C library's \<^verbatim>\<open>sscanf\<close> for this one format. \<^verbatim>\<open>%u\<close> skips white space, accepts
  an optional sign and needs at least one decimal digit; the literal \<^verbatim>\<open>.\<close> must
  follow at once. A digit string that does not fit is converted as glibc's
  \<^verbatim>\<open>strtoul\<close> does on a 64-bit target (saturating at \<open>2^64 - 1\<close>) and then stored
  in the 32-bit \<^verbatim>\<open>unsigned\<close>. The result is \<open>Some (major, minor)\<close> exactly when the call
  returns 2.
\<close>

definition isspace :: "char \<Rightarrow> bool" where
  "isspace c = (c = CHR '' '' \<or> (9 \<le> (of_char c :: nat) \<and> (of_char c :: nat) \<le> 13))"

definition isdigit :: "char \<Rightarrow> bool" where
  "isdigit c = (48 \<le> (of_char c :: nat) \<and> (of_char c :: nat) \<le> 57)"

definition digits_value :: "string \<Rightarrow> nat" where
  "digits_value ds = foldl (\<lambda>acc c. 10 * acc + (of_char c - 48)) 0 ds"

definition store_unsigned :: "bool \<Rightarrow> nat \<Rightarrow> 32 word" where
  "store_unsigned neg v =
     (if 2 ^ 64 \<le> v then - 1
      else if neg then - word_of_nat v
      else word_of_nat v)"

definition scan_unsigned :: "string \<Rightarrow> (32 word \<times> string) option" where
  "scan_unsigned s =
     (let s1 = dropWhile isspace s;
          neg = (case s1 of c # _ \<Rightarrow> c = CHR ''-'' | [] \<Rightarrow> False);
          s2 = (case s1 of c # r \<Rightarrow> if c = CHR ''+'' \<or> c = CHR ''-'' then r else s1 | [] \<Rightarrow> s1);
          ds = takeWhile isdigit s2
      in if ds = [] then None
         else Some (store_unsigned neg (digits_value ds), dropWhile isdigit s2))"

definition sscanf_version :: "string \<Rightarrow> (32 word \<times> 32 word) option" where
  "sscanf_version s =
     (case scan_unsigned s of
        None \<Rightarrow> None
      | Some (major, r) \<Rightarrow>
          (case r of
             [] \<Rightarrow> None
           | c # r' \<Rightarrow>
               if c \<noteq> CHR ''.'' then None
               else (case scan_unsigned r' of
                       None \<Rightarrow> None
                     | Some (minor, _) \<Rightarrow> Some (major, minor))))"

subsection \<open>\<^verbatim>\<open>old_kernel\<close>\<close>

text \<open>
  Returns 1 if the kernel is older than 6.1 (the source's comment). \<^verbatim>\<open>errExit\<close> and
  \<^verbatim>\<open>exit(1)\<close> end the process; the message printed before \<^verbatim>\<open>exit(1)\<close> quotes
  \<^verbatim>\<open>u.version\<close>, as the source does.
\<close>

definition old_kernel :: "kernel \<Rightarrow> fatal + int" where
  "old_kernel k =
     (case k_uname k of
        None \<Rightarrow> Inl (ErrExit ''uname'')
      | Some u \<Rightarrow>
          (case sscanf_version (release u) of
             None \<Rightarrow>
               Inl (Exit (''Error: cannot extract Linux kernel version: '' @ version u @ nl) 1)
           | Some (major, minor) \<Rightarrow>
               (let version = push_bit 8 major + minor
                in if version < push_bit 8 6 + 1 then Inr 1 else Inr 0)))"

section \<open>The ruleset accumulator\<close>

subsection \<open>Access rights of \<^verbatim>\<open>linux/landlock.h\<close>\<close>

text \<open>
  The kernel header is not part of the repository; the constants are the bit flags
  \<^verbatim>\<open>(1ULL << n)\<close> of the Landlock ABI.
\<close>

definition LANDLOCK_ACCESS_FS_EXECUTE :: "64 word" where
  "LANDLOCK_ACCESS_FS_EXECUTE = push_bit 0 1"

definition LANDLOCK_ACCESS_FS_WRITE_FILE :: "64 word" where
  "LANDLOCK_ACCESS_FS_WRITE_FILE = push_bit 1 1"

definition LANDLOCK_ACCESS_FS_READ_FILE :: "64 word" where
  "LANDLOCK_ACCESS_FS_READ_FILE = push_bit 2 1"

definition LANDLOCK_ACCESS_FS_READ_DIR :: "64 word" where
  "LANDLOCK_ACCESS_FS_READ_DIR = push_bit 3 1"

definition LANDLOCK_ACCESS_FS_REMOVE_DIR :: "64 word" where
  "LANDLOCK_ACCESS_FS_REMOVE_DIR = push_bit 4 1"

definition LANDLOCK_ACCESS_FS_REMOVE_FILE :: "64 word" where
  "LANDLOCK_ACCESS_FS_REMOVE_FILE = push_bit 5 1"

definition LANDLOCK_ACCESS_FS_MAKE_CHAR :: "64 word" where
  "LANDLOCK_ACCESS_FS_MAKE_CHAR = push_bit 6 1"

definition LANDLOCK_ACCESS_FS_MAKE_DIR :: "64 word" where
  "LANDLOCK_ACCESS_FS_MAKE_DIR = push_bit 7 1"

definition LANDLOCK_ACCESS_FS_MAKE_REG :: "64 word" where
  "LANDLOCK_ACCESS_FS_MAKE_REG = push_bit 8 1"

definition LANDLOCK_ACCESS_FS_MAKE_SOCK :: "64 word" where
  "LANDLOCK_ACCESS_FS_MAKE_SOCK = push_bit 9 1"

definition LANDLOCK_ACCESS_FS_MAKE_FIFO :: "64 word" where
  "LANDLOCK_ACCESS_FS_MAKE_FIFO = push_bit 10 1"

definition LANDLOCK_ACCESS_FS_MAKE_BLOCK :: "64 word" where
  "LANDLOCK_ACCESS_FS_MAKE_BLOCK = push_bit 11 1"

definition LANDLOCK_ACCESS_FS_MAKE_SYM :: "64 word" where
  "LANDLOCK_ACCESS_FS_MAKE_SYM = push_bit 12 1"

subsection \<open>System calls\<close>

text \<open>
  Each wrapper asks the kernel for the result, given the trace so far, and appends the
  call to the trace. \<^verbatim>\<open>close\<close> and \<^verbatim>\<open>prctl\<close> have results the source ignores.
  \<open>alloc\<close> stands for \<^verbatim>\<open>malloc\<close>, \<^verbatim>\<open>strdup\<close> and \<^verbatim>\<open>asprintf\<close> together with the
  \<^verbatim>\<open>errExit\<close> that follows each of them in the source.
\<close>

definition ll_create_ruleset :: "kernel \<Rightarrow> 64 word \<Rightarrow> world \<Rightarrow> int \<times> world" where
  "ll_create_ruleset k handled_access_fs w =
     (let r = k_create_ruleset k (trace w) handled_access_fs
      in (r, emit (CreateRuleset handled_access_fs r) w))"

definition ll_add_rule :: "kernel \<Rightarrow> int \<Rightarrow> int \<Rightarrow> 64 word \<Rightarrow> world \<Rightarrow> int \<times> world" where
  "ll_add_rule k fd parent_fd allowed_access w =
     (let r = k_add_rule k (trace w) fd parent_fd allowed_access
      in (r, emit (AddRule fd parent_fd allowed_access r) w))"

definition landlock_restrict_self :: "kernel \<Rightarrow> int \<Rightarrow> 32 word \<Rightarrow> world \<Rightarrow> int \<times> world" where
  "landlock_restrict_self k ruleset_fd flags w =
     (let r = k_restrict_self k (trace w) ruleset_fd flags
      in (r, emit (RestrictSelf ruleset_fd flags r) w))"

definition sys_open :: "kernel \<Rightarrow> string \<Rightarrow> world \<Rightarrow> int \<times> world" where
  "sys_open k path w =
     (let fd = k_open k (trace w) path in (fd, emit (Open path fd) w))"

definition sys_close :: "int \<Rightarrow> world \<Rightarrow> world" where
  "sys_close fd w = emit (Close fd) w"

definition sys_access :: "kernel \<Rightarrow> string \<Rightarrow> world \<Rightarrow> int \<times> world" where
  "sys_access k path w =
     (let r = k_access k (trace w) path in (r, emit (Access path r) w))"

definition sys_prctl :: "world \<Rightarrow> world" where
  "sys_prctl w = emit Prctl w"

definition alloc :: "kernel \<Rightarrow> string \<Rightarrow> world \<Rightarrow> fatal + world" where
  "alloc k what w =
     (if k_alloc k (trace w) then Inr (emit (Alloc what) w) else Inl (ErrExit what))"


subsection \<open>Creating the ruleset\<close>

text \<open>The value \<^verbatim>\<open>ll_create_full_ruleset\<close> stores in \<^verbatim>\<open>attr.handled_access_fs\<close>.\<close>

definition handled_access_fs :: "64 word" where
  "handled_access_fs =
     LANDLOCK_ACCESS_FS_READ_FILE OR LANDLOCK_ACCESS_FS_READ_DIR OR LANDLOCK_ACCESS_FS_WRITE_FILE OR
     LANDLOCK_ACCESS_FS_REMOVE_FILE OR LANDLOCK_ACCESS_FS_REMOVE_DIR OR LANDLOCK_ACCESS_FS_MAKE_CHAR OR
     LANDLOCK_ACCESS_FS_MAKE_DIR OR LANDLOCK_ACCESS_FS_MAKE_REG OR LANDLOCK_ACCESS_FS_MAKE_SOCK OR
     LANDLOCK_ACCESS_FS_MAKE_FIFO OR LANDLOCK_ACCESS_FS_MAKE_BLOCK OR LANDLOCK_ACCESS_FS_MAKE_SYM OR
     LANDLOCK_ACCESS_FS_EXECUTE"

definition ll_create_full_ruleset :: "kernel \<Rightarrow> world \<Rightarrow> int \<times> world" where
  "ll_create_full_ruleset k w = ll_create_ruleset k handled_access_fs w"

text \<open>
  The statement \<^verbatim>\<open>if (rset_fd == -1) rset_fd = ll_create_full_ruleset();\<close>, which
  stands at the head of each of the five rule-adding functions.
\<close>

definition lazy_ruleset :: "kernel \<Rightarrow> world \<Rightarrow> world" where
  "lazy_ruleset k w =
     (if rset_fd w = - 1
      then (let (fd, w') = ll_create_full_ruleset k w in w'\<lparr>rset_fd := fd\<rparr>)
      else w)"

subsection \<open>The per-class helpers\<close>

definition warning_old_kernel :: string where
  "warning_old_kernel =
     ''Warning: Landlock not enabled, a 6.1 or newer Linux kernel is required'' @ nl"

type_synonym helper = "kernel \<Rightarrow> string \<Rightarrow> world \<Rightarrow> fatal + (int \<times> world)"

definition ll_read :: helper where
  "ll_read k allowed_path w =
     (case old_kernel k of
        Inl e \<Rightarrow> Inl e
      | Inr old \<Rightarrow>
          if old \<noteq> 0 then Inr (1, emit (Stderr warning_old_kernel) w)
          else
            let w1 = lazy_ruleset k w;
                (allowed_fd, w2) = sys_open k allowed_path w1;
                (result, w3) =
                  ll_add_rule k (rset_fd w2) allowed_fd
                    (LANDLOCK_ACCESS_FS_READ_FILE OR LANDLOCK_ACCESS_FS_READ_DIR) w2;
                w4 = sys_close allowed_fd w3
            in Inr (result, w4))"

definition ll_write :: helper where
  "ll_write k allowed_path w =
     (case old_kernel k of
        Inl e \<Rightarrow> Inl e
      | Inr old \<Rightarrow>
          if old \<noteq> 0 then Inr (1, emit (Stderr warning_old_kernel) w)
          else
            let w1 = lazy_ruleset k w;
                (allowed_fd, w2) = sys_open k allowed_path w1;
                (result, w3) =
                  ll_add_rule k (rset_fd w2) allowed_fd
                    (LANDLOCK_ACCESS_FS_WRITE_FILE OR LANDLOCK_ACCESS_FS_REMOVE_FILE OR
                     LANDLOCK_ACCESS_FS_REMOVE_DIR OR LANDLOCK_ACCESS_FS_MAKE_CHAR OR
                     LANDLOCK_ACCESS_FS_MAKE_DIR OR LANDLOCK_ACCESS_FS_MAKE_REG OR
                     LANDLOCK_ACCESS_FS_MAKE_SYM) w2;
                w4 = sys_close allowed_fd w3
            in Inr (result, w4))"

definition ll_special :: helper where
  "ll_special k allowed_path w =
     (case old_kernel k of
        Inl e \<Rightarrow> Inl e
      | Inr old \<Rightarrow>
          if old \<noteq> 0 then Inr (1, emit (Stderr warning_old_kernel) w)
          else
            let w1 = lazy_ruleset k w;
                (allowed_fd, w2) = sys_open k allowed_path w1;
                (result, w3) =
                  ll_add_rule k (rset_fd w2) allowed_fd
                    (LANDLOCK_ACCESS_FS_MAKE_SOCK OR LANDLOCK_ACCESS_FS_MAKE_FIFO OR
                     LANDLOCK_ACCESS_FS_MAKE_BLOCK) w2;
                w4 = sys_close allowed_fd w3
            in Inr (result, w4))"

definition ll_exec :: helper where
  "ll_exec k allowed_path w =
     (case old_kernel k of
        Inl e \<Rightarrow> Inl e
      | Inr old \<Rightarrow>
          if old \<noteq> 0 then Inr (1, emit (Stderr warning_old_kernel) w)
          else
            let w1 = lazy_ruleset k w;
                (allowed_fd, w2) = sys_open k allowed_path w1;
                (result, w3) =
                  ll_add_rule k (rset_fd w2) allowed_fd LANDLOCK_ACCESS_FS_EXECUTE w2;
                w4 = sys_close allowed_fd w3
            in Inr (result, w4))"

subsection \<open>The baseline policy \<^verbatim>\<open>ll_basic_system\<close>\<close>

text \<open>
  \<^verbatim>\<open>asprintf(&rundir, "/run/user/%d", getuid())\<close>: the decimal rendering of the user
  id, read as a signed \<^verbatim>\<open>int\<close> by \<^verbatim>\<open>%d\<close>.
\<close>

fun show_nat :: "nat \<Rightarrow> string" where
  "show_nat n =
     (if n < 10 then [char_of (48 + n)]
      else show_nat (n div 10) @ [char_of (48 + n mod 10)])"

definition show_int :: "int \<Rightarrow> string" where
  "show_int i = (if i < 0 then CHR ''-'' # show_nat (nat (- i)) else show_nat (nat i))"

definition error_basic :: string where
  "error_basic = ''Error: cannot set the basic Landlock filesystem'' @ nl"

text \<open>
  The condition of the second \<^verbatim>\<open>if\<close> of \<^verbatim>\<open>ll_basic_system\<close> is one expression
  \<^verbatim>\<open>ll_read("/") || ll_special("/") || ... || ll_exec("/run/firejail")\<close>. The operands are
  listed in source order (\<^verbatim>\<open>/bin\<close> occurs twice there), and \<open>or_chain\<close> evaluates them as C
  evaluates \<^verbatim>\<open>||\<close>: left to right, stopping at the first operand that is not 0.
\<close>

definition basic_chain :: "string \<Rightarrow> (helper \<times> string) list" where
  "basic_chain rundir =
     [(ll_read, ''/''),
      (ll_special, ''/''),
      (ll_write, ''/tmp''),
      (ll_write, ''/dev''),
      (ll_write, ''/run/shm''),
      (ll_write, rundir),
      (ll_exec, ''/opt''),
      (ll_exec, ''/bin''),
      (ll_exec, ''/sbin''),
      (ll_exec, ''/bin''),
      (ll_exec, ''/lib''),
      (ll_exec, ''/lib32''),
      (ll_exec, ''/libx32''),
      (ll_exec, ''/lib64''),
      (ll_exec, ''/usr/bin''),
      (ll_exec, ''/usr/sbin''),
      (ll_exec, ''/usr/games''),
      (ll_exec, ''/usr/lib''),
      (ll_exec, ''/usr/lib32''),
      (ll_exec, ''/usr/libx32''),
      (ll_exec, ''/usr/lib64''),
      (ll_exec, ''/usr/local/bin''),
      (ll_exec, ''/usr/local/sbin''),
      (ll_exec, ''/usr/local/games''),
      (ll_exec, ''/usr/local/lib''),
      (ll_exec, ''/run/firejail'')]"

fun or_chain :: "kernel \<Rightarrow> (helper \<times> string) list \<Rightarrow> world \<Rightarrow> fatal + (bool \<times> world)" where
  "or_chain k [] w = Inr (False, w)"
| "or_chain k ((fnc, path) # rest) w =
     (case fnc k path w of
        Inl e \<Rightarrow> Inl e
      | Inr (r, w') \<Rightarrow> if r \<noteq> 0 then Inr (True, w') else or_chain k rest w')"

definition rundir :: "kernel \<Rightarrow> string" where
  "rundir k = ''/run/user/'' @ show_int (sint (k_getuid k))"

text \<open>
  The first half of \<^verbatim>\<open>ll_basic_system\<close>, from the creation of the ruleset to
  \<^verbatim>\<open>asprintf\<close>: the rule for the home directory, whose failure is reported and
  nothing more.
\<close>

definition ll_basic_system_home :: "kernel \<Rightarrow> world \<Rightarrow> fatal + world" where
  "ll_basic_system_home k w =
     (let w1 = lazy_ruleset k w
      in (case cfg_homedir w1 of
            None \<Rightarrow> Inl AssertFail
          | Some homedir \<Rightarrow>
              let (home_fd, w2) = sys_open k homedir w1;
                  (r, w3) =
                    ll_add_rule k (rset_fd w2) home_fd
                      (LANDLOCK_ACCESS_FS_READ_FILE OR LANDLOCK_ACCESS_FS_READ_DIR OR
                       LANDLOCK_ACCESS_FS_WRITE_FILE OR LANDLOCK_ACCESS_FS_REMOVE_FILE OR
                       LANDLOCK_ACCESS_FS_REMOVE_DIR OR LANDLOCK_ACCESS_FS_MAKE_CHAR OR
                       LANDLOCK_ACCESS_FS_MAKE_DIR OR LANDLOCK_ACCESS_FS_MAKE_REG OR
                       LANDLOCK_ACCESS_FS_MAKE_SYM) w2;
                  w4 = (if r \<noteq> 0 then emit (Stderr error_basic) w3 else w3);
                  w5 = sys_close home_fd w4
              in alloc k ''asprintf'' w5))"

definition ll_basic_system :: "kernel \<Rightarrow> world \<Rightarrow> fatal + world" where
  "ll_basic_system k w =
     (case old_kernel k of
        Inl e \<Rightarrow> Inl e
      | Inr old \<Rightarrow>
          if old \<noteq> 0 then Inr (emit (Stderr warning_old_kernel) w)
          else
            (case ll_basic_system_home k w of
               Inl e \<Rightarrow> Inl e
             | Inr w6 \<Rightarrow>
                 (case or_chain k (basic_chain (rundir k)) w6 of
                    Inl e \<Rightarrow> Inl e
                  | Inr (failed, w7) \<Rightarrow>
                      Inr (if failed then emit (Stderr error_basic) w7 else w7))))"

subsection \<open>Deferred directives: \<^verbatim>\<open>ll_add_profile\<close> and \<^verbatim>\<open>ll_restrict\<close>\<close>

text \<open>
  \<^verbatim>\<open>cfg.lprofile\<close> is a singly linked list of \<^verbatim>\<open>LandlockEntry\<close> nodes; the model keeps
  the \<^verbatim>\<open>data\<close> strings from the head on. \<^verbatim>\<open>ll_add_profile\<close> links the new node in
  front of the old head.
\<close>

definition ll_add_profile :: "kernel \<Rightarrow> string \<Rightarrow> world \<Rightarrow> fatal + world" where
  "ll_add_profile k data w =
     (case old_kernel k of
        Inl e \<Rightarrow> Inl e
      | Inr old \<Rightarrow>
          if old \<noteq> 0 then Inr w
          else (case alloc k ''malloc'' w of
                  Inl e \<Rightarrow> Inl e
                | Inr w1 \<Rightarrow>
                    (case alloc k ''strdup'' w1 of
                       Inl e \<Rightarrow> Inl e
                     | Inr w2 \<Rightarrow> Inr (w2\<lparr>cfg_lprofile := data # cfg_lprofile w2\<rparr>))))"

text \<open>
  The keyword test of the loop body. \<^verbatim>\<open>strncmp(data, kw, n) == 0\<close> holds when the first
  \<open>n\<close> characters of \<open>data\<close> are the keyword. \<^verbatim>\<open>fname = data + n + 1\<close> points into the
  string only if \<open>data\<close> has more than \<open>n\<close> characters; otherwise it points past the
  terminating NUL. \<^verbatim>\<open>assert(0)\<close> aborts (a build without \<^verbatim>\<open>NDEBUG\<close>).
\<close>

definition ll_restrict_select :: "string \<Rightarrow> fatal + (string \<times> helper)" where
  "ll_restrict_select data =
     (if take 13 data = ''landlock.read'' then
        (if length data < 14 then Inl OutOfBounds else Inr (drop 14 data, ll_read))
      else if take 14 data = ''landlock.write'' then
        (if length data < 15 then Inl OutOfBounds else Inr (drop 15 data, ll_write))
      else if take 16 data = ''landlock.special'' then
        (if length data < 17 then Inl OutOfBounds else Inr (drop 17 data, ll_special))
      else if take 16 data = ''landlock.execute'' then
        (if length data < 17 then Inl OutOfBounds else Inr (drop 17 data, ll_exec))
      else Inl AssertFail)"

definition error_add_rule :: "string \<Rightarrow> string" where
  "error_add_rule fname = ''Error: failed to add Landlock rule for '' @ fname @ nl"

fun ll_restrict_walk :: "kernel \<Rightarrow> string list \<Rightarrow> world \<Rightarrow> fatal + world" where
  "ll_restrict_walk k [] w = Inr w"
| "ll_restrict_walk k (data # next) w =
     (case ll_restrict_select data of
        Inl e \<Rightarrow> Inl e
      | Inr (fname, fnc) \<Rightarrow>
          (case sys_access k fname w of
             (rv, w1) \<Rightarrow>
               if rv = 0 then
                 (case fnc k fname w1 of
                    Inl e \<Rightarrow> Inl e
                  | Inr (r, w2) \<Rightarrow>
                      ll_restrict_walk k next
                        (if r \<noteq> 0 then emit (Stderr (error_add_rule fname)) w2 else w2))
               else ll_restrict_walk k next w1))"

definition ll_restrict :: "kernel \<Rightarrow> 32 word \<Rightarrow> world \<Rightarrow> fatal + (int \<times> world)" where
  "ll_restrict k flags w =
     (case old_kernel k of
        Inl e \<Rightarrow> Inl e
      | Inr old \<Rightarrow>
          if old \<noteq> 0 then Inr (0, emit (Stderr warning_old_kernel) w)
          else
            (case ll_restrict_walk k (cfg_lprofile w) w of
               Inl e \<Rightarrow> Inl e
             | Inr w1 \<Rightarrow>
                 if rset_fd w1 = - 1 then Inr (0, w1)
                 else
                   let w2 = sys_prctl w1;
                       (result, w3) = landlock_restrict_self k (rset_fd w2) flags w2
                   in if result \<noteq> 0 then Inr (result, w3)
                      else Inr (0, sys_close (rset_fd w3) w3)))"

text \<open>A sequence of \<^verbatim>\<open>ll_add_profile\<close> calls, one per directive, in the order given.\<close>

fun ll_add_profiles :: "kernel \<Rightarrow> string list \<Rightarrow> world \<Rightarrow> fatal + world" where
  "ll_add_profiles k [] w = Inr w"
| "ll_add_profiles k (d # ds) w =
     (case ll_add_profile k d w of
        Inl e \<Rightarrow> Inl e
      | Inr w' \<Rightarrow> ll_add_profiles k ds w')"

section \<open>Observations and the specification's vocabulary\<close>

subsection \<open>What a trace shows\<close>

text \<open>
  The masks declared by the \<^verbatim>\<open>landlock_create_ruleset\<close> calls, the masks of the rules
  submitted, the paths opened and the paths probed with \<^verbatim>\<open>access\<close>, each in program
  order.
\<close>

fun created :: "event list \<Rightarrow> 64 word list" where
  "created [] = []"
| "created (CreateRuleset m r # es) = m # created es"
| "created (e # es) = created es"

fun rule_masks :: "event list \<Rightarrow> 64 word list" where
  "rule_masks [] = []"
| "rule_masks (AddRule fd parent_fd m r # es) = m # rule_masks es"
| "rule_masks (e # es) = rule_masks es"

fun opened :: "event list \<Rightarrow> string list" where
  "opened [] = []"
| "opened (Open path fd # es) = path # opened es"
| "opened (e # es) = opened es"

fun probed :: "event list \<Rightarrow> string list" where
  "probed [] = []"
| "probed (Access path r # es) = path # probed es"
| "probed (e # es) = probed es"

text \<open>The path a directive names, as \<^verbatim>\<open>ll_restrict\<close> extracts it.\<close>

definition directive_path :: "string \<Rightarrow> string" where
  "directive_path data =
     (case ll_restrict_select data of Inl e \<Rightarrow> [] | Inr (fname, fnc) \<Rightarrow> fname)"

definition well_formed :: "string \<Rightarrow> bool" where
  "well_formed data = (case ll_restrict_select data of Inl e \<Rightarrow> False | Inr x \<Rightarrow> True)"

subsection \<open>Access classes and elementary rights\<close>

text \<open>
  The specification's table of access classes:
  Read = read-file, read-dir;
  Write = write-file, remove-file, remove-dir, make-char, make-dir, make-reg, make-sym;
  Special = make-sock, make-fifo, make-block;
  Execute = execute.
  \<open>class_rights\<close> is that table; \<open>class_helper\<close> names the source function of each class;
  \<open>access_bit\<close> gives each right its flag of the kernel header.
\<close>

datatype access_class = Read | Write | Special | Execute

datatype fs_access =
    ReadFile | ReadDir | WriteFile | RemoveFile | RemoveDir
  | MakeChar | MakeDir | MakeReg | MakeSock | MakeFifo | MakeBlock | MakeSym
  | Exec

fun access_bit :: "fs_access \<Rightarrow> 64 word" where
  "access_bit ReadFile = LANDLOCK_ACCESS_FS_READ_FILE"
| "access_bit ReadDir = LANDLOCK_ACCESS_FS_READ_DIR"
| "access_bit WriteFile = LANDLOCK_ACCESS_FS_WRITE_FILE"
| "access_bit RemoveFile = LANDLOCK_ACCESS_FS_REMOVE_FILE"
| "access_bit RemoveDir = LANDLOCK_ACCESS_FS_REMOVE_DIR"
| "access_bit MakeChar = LANDLOCK_ACCESS_FS_MAKE_CHAR"
| "access_bit MakeDir = LANDLOCK_ACCESS_FS_MAKE_DIR"
| "access_bit MakeReg = LANDLOCK_ACCESS_FS_MAKE_REG"
| "access_bit MakeSock = LANDLOCK_ACCESS_FS_MAKE_SOCK"
| "access_bit MakeFifo = LANDLOCK_ACCESS_FS_MAKE_FIFO"
| "access_bit MakeBlock = LANDLOCK_ACCESS_FS_MAKE_BLOCK"
| "access_bit MakeSym = LANDLOCK_ACCESS_FS_MAKE_SYM"
| "access_bit Exec = LANDLOCK_ACCESS_FS_EXECUTE"

definition all_fs_access :: "fs_access list" where
  "all_fs_access =
     [ReadFile, ReadDir, WriteFile, RemoveFile, RemoveDir, MakeChar, MakeDir, MakeReg,
      MakeSock, MakeFifo, MakeBlock, MakeSym, Exec]"

definition rights_of :: "64 word \<Rightarrow> fs_access set" where
  "rights_of m = set (filter (\<lambda>a. m AND access_bit a \<noteq> 0) all_fs_access)"

definition mask_of :: "fs_access list \<Rightarrow> 64 word" where
  "mask_of as = foldr (\<lambda>a m. access_bit a OR m) as 0"

fun class_rights :: "access_class \<Rightarrow> fs_access list" where
  "class_rights Read = [ReadFile, ReadDir]"
| "class_rights Write = [WriteFile, RemoveFile, RemoveDir, MakeChar, MakeDir, MakeReg, MakeSym]"
| "class_rights Special = [MakeSock, MakeFifo, MakeBlock]"
| "class_rights Execute = [Exec]"

fun class_helper :: "access_class \<Rightarrow> helper" where
  "class_helper Read = ll_read"
| "class_helper Write = ll_write"
| "class_helper Special = ll_special"
| "class_helper Execute = ll_exec"

subsection \<open>The common body of the helpers\<close>

text \<open>
  What the four helpers do on a supported kernel with the mask \<open>m\<close>: create the ruleset
  if there is none, open the path, submit the rule, close the descriptor, return the
  result of the rule submission. The lemmas below show that each helper is this function
  at its own mask.
\<close>

definition path_rule :: "kernel \<Rightarrow> 64 word \<Rightarrow> string \<Rightarrow> world \<Rightarrow> int \<times> world" where
  "path_rule k m path w =
     (let w1 = lazy_ruleset k w;
          fd = k_open k (trace w1) path;
          r = k_add_rule k (trace w1 @ [Open path fd]) (rset_fd w1) fd m
      in (r, w1\<lparr>trace := trace w1 @ [Open path fd, AddRule (rset_fd w1) fd m r, Close fd]\<rparr>))"

section \<open>Example kernels and worlds\<close>

text \<open>
  A 6.5 kernel on which the ruleset is descriptor 3 and every path opens as descriptor 4;
  a Landlock call on a descriptor that has been closed fails with \<open>-1\<close>, and
  \<^verbatim>\<open>/no/such/path\<close> does not exist.
\<close>

definition kernel_6_5 :: kernel where
  "kernel_6_5 =
     \<lparr>k_uname = Some \<lparr>release = ''6.5.0'', version = ''#1 SMP''\<rparr>,
      k_getuid = 1000,
      k_alloc = (\<lambda>tr. True),
      k_create_ruleset = (\<lambda>tr m. 3),
      k_open = (\<lambda>tr path. 4),
      k_add_rule = (\<lambda>tr fd parent_fd m. if Close fd \<in> set tr then - 1 else 0),
      k_access = (\<lambda>tr path. if path = ''/no/such/path'' then - 1 else 0),
      k_restrict_self = (\<lambda>tr fd flags. if Close fd \<in> set tr then - 1 else 0)\<rparr>"

text \<open>The same kernel with Landlock disabled: no ruleset can be created, no rule added.\<close>

definition kernel_no_landlock :: kernel where
  "kernel_no_landlock =
     kernel_6_5\<lparr>k_create_ruleset := (\<lambda>tr m. - 1),
                k_add_rule := (\<lambda>tr fd parent_fd m. - 1),
                k_restrict_self := (\<lambda>tr fd flags. - 1)\<rparr>"

text \<open>The same kernel refusing the final self-restriction.\<close>

definition kernel_refusing :: kernel where
  "kernel_refusing = kernel_6_5\<lparr>k_restrict_self := (\<lambda>tr fd flags. - 1)\<rparr>"

text \<open>The same kernel on which no path can be opened.\<close>

definition kernel_unopenable :: kernel where
  "kernel_unopenable =
     kernel_6_5\<lparr>k_open := (\<lambda>tr path. - 1),
                k_add_rule := (\<lambda>tr fd parent_fd m. if parent_fd = - 1 then - 1 else 0)\<rparr>"

definition kernel_release :: "string \<Rightarrow> kernel" where
  "kernel_release r = kernel_6_5\<lparr>k_uname := Some \<lparr>release = r, version = ''#1 SMP''\<rparr>\<rparr>"

definition world_init :: world where
  "world_init =
     \<lparr>rset_fd = - 1, cfg_lprofile = [], cfg_homedir = Some ''/home/u'', trace = []\<rparr>"

text \<open>The same kernel refusing the rule for \<^verbatim>\<open>/tmp\<close>.\<close>

definition kernel_tmp_refused :: kernel where
  "kernel_tmp_refused =
     kernel_6_5\<lparr>k_add_rule :=
       (\<lambda>tr fd parent_fd m. if opened tr \<noteq> [] \<and> last (opened tr) = ''/tmp'' then - 1 else 0)\<rparr>"

text \<open>A world whose ruleset is open, with no directive queued.\<close>

definition world_open :: world where
  "world_open = world_init\<lparr>rset_fd := 3, trace := [CreateRuleset handled_access_fs 3]\<rparr>"

text \<open>
  Two directives queued on \<open>kernel_6_5\<close>, first \<^verbatim>\<open>landlock.read /a\<close>, then
  \<^verbatim>\<open>landlock.write /b\<close>; the world after a first \<^verbatim>\<open>ll_restrict\<close>; the world after
  the loop of a second \<^verbatim>\<open>ll_restrict\<close>, and after that second call.
\<close>

definition world_two_directives :: world where
  "world_two_directives =
     \<lparr>rset_fd = - 1,
      cfg_lprofile = [''landlock.write /b'', ''landlock.read /a''],
      cfg_homedir = Some ''/home/u'',
      trace = [Alloc ''malloc'', Alloc ''strdup'', Alloc ''malloc'', Alloc ''strdup'']\<rparr>"

definition world_two_restricted :: world where
  "world_two_restricted =
     \<lparr>rset_fd = 3,
      cfg_lprofile = [''landlock.write /b'', ''landlock.read /a''],
      cfg_homedir = Some ''/home/u'',
      trace =
        [Alloc ''malloc'', Alloc ''strdup'', Alloc ''malloc'', Alloc ''strdup'',
         Access ''/b'' 0, CreateRuleset handled_access_fs 3,
         Open ''/b'' 4, AddRule 3 4 (mask_of (class_rights Write)) 0, Close 4,
         Access ''/a'' 0,
         Open ''/a'' 4, AddRule 3 4 (mask_of (class_rights Read)) 0, Close 4,
         Prctl, RestrictSelf 3 0 0, Close 3]\<rparr>"



text \<open>
  The baseline policy on \<open>kernel_tmp_refused\<close>: the world after the home directory's
  rule, after the two helpers for \<^verbatim>\<open>/\<close>, and after the helper for \<^verbatim>\<open>/tmp\<close>. Then its
  result on \<open>kernel_no_landlock\<close>.
\<close>

definition world_home :: world where
  "world_home =
     \<lparr>rset_fd = 3, cfg_lprofile = [], cfg_homedir = Some ''/home/u'',
      trace =
        [CreateRuleset handled_access_fs 3,
         Open ''/home/u'' 4,
         AddRule 3 4 (mask_of (class_rights Read) OR mask_of (class_rights Write)) 0,
         Close 4,
         Alloc ''asprintf'']\<rparr>"

definition world_root :: world where
  "world_root =
     world_home
       \<lparr>trace := trace world_home @
          [Open ''/'' 4, AddRule 3 4 (mask_of (class_rights Read)) 0, Close 4,
           Open ''/'' 4, AddRule 3 4 (mask_of (class_rights Special)) 0, Close 4]\<rparr>"

definition world_tmp :: world where
  "world_tmp =
     world_root
       \<lparr>trace := trace world_root @
          [Open ''/tmp'' 4, AddRule 3 4 (mask_of (class_rights Write)) (- 1), Close 4]\<rparr>"

definition world_no_landlock :: world where
  "world_no_landlock =
     \<lparr>rset_fd = - 1, cfg_lprofile = [], cfg_homedir = Some ''/home/u'',
      trace =
        [CreateRuleset handled_access_fs (- 1),
         Open ''/home/u'' 4,
         AddRule (- 1) 4 (mask_of (class_rights Read) OR mask_of (class_rights Write)) (- 1),
         Stderr error_basic,
         Close 4,
         Alloc ''asprintf'',
         CreateRuleset handled_access_fs (- 1),
         Open ''/'' 4,
         AddRule (- 1) 4 (mask_of (class_rights Read)) (- 1),
         Close 4,
         Stderr error_basic]\<rparr>"

section \<open>Properties of the probe\<close>

lemmas scan_defs = sscanf_version_def scan_unsigned_def isspace_def isdigit_def
  digits_value_def store_unsigned_def

lemma sscanf_5_300: "sscanf_version ''5.300.0'' = Some (5, 300)"
  by (simp add: scan_defs)

lemma sscanf_unknown: "sscanf_version ''unknown'' = None"
  by (simp add: scan_defs)

lemma sscanf_5_15: "sscanf_version ''5.15.0-91-generic'' = Some (5, 15)"
  by (simp add: scan_defs)

lemma sscanf_6_5: "sscanf_version ''6.5.0'' = Some (6, 5)"
  by (simp add: scan_defs)

text \<open>
  Where the minor number fits the eight bits the packing leaves for it, the probe
  compares versions as intended.
\<close>

lemma old_kernel_in_range:
  fixes major minor :: "32 word"
  assumes "k_uname k = Some u" and "sscanf_version (release u) = Some (major, minor)"
    and "unat major < 2 ^ 24" and "unat minor < 256"
  shows "old_kernel k =
           (if unat major < 6 \<or> (unat major = 6 \<and> unat minor < 1) then Inr 1 else Inr 0)"
proof -
  have "unat (push_bit 8 major + minor) = 256 * unat major + unat minor"
    using assms(3,4)
    by (simp add: unat_word_ariths push_bit_eq_mult unat_of_nat take_bit_nat_eq_self_iff)
  moreover have "unat (push_bit 8 6 + 1 :: 32 word) = 1537"
    by simp
  ultimately have
    "(push_bit 8 major + minor < push_bit 8 6 + 1) = (256 * unat major + unat minor < 1537)"
    by (simp add: word_less_nat_alt)
  then show ?thesis
    using assms by (auto simp: old_kernel_def Let_def)
qed

text \<open>
  C4. The claim: for every release string that parses as major.minor, the probe reports
  a supported kernel (returns 0) exactly when (major, minor) is at least (6, 1), and
  reports every version below 6.1 as unsupported. The source packs the version as
  \<^verbatim>\<open>(major << 8) + minor\<close>, so a minor number above 256 carries into the major
  field: on the release \<^verbatim>\<open>5.300.0\<close>, a version below 6.1, \<^verbatim>\<open>old_kernel\<close> returns 0.
\<close>

theorem old_kernel_accepts_5_300:
  "old_kernel (k\<lparr>k_uname := Some \<lparr>release = ''5.300.0'', version = v\<rparr>\<rparr>) = Inr 0"
  by (simp add: old_kernel_def sscanf_5_300)

text \<open>
  The exits of the probe. When the release string cannot be parsed as a leading
  major.minor pair, the probe ends the process (error message, then \<^verbatim>\<open>exit(1)\<close>); when
  it can be parsed the probe always returns, with 0 or 1.
\<close>

lemma old_kernel_exits:
  assumes "k_uname k = Some u"
  shows "(sscanf_version (release u) = None \<longrightarrow>
            old_kernel k =
              Inl (Exit (''Error: cannot extract Linux kernel version: '' @ version u @ nl) 1))
       \<and> (\<forall>major minor. sscanf_version (release u) = Some (major, minor) \<longrightarrow>
            (old_kernel k = Inr 0 \<or> old_kernel k = Inr 1))"
  using assms by (auto simp: old_kernel_def Let_def)

text \<open>
  C5. The claim: an unparseable release string ends the process, whereas a parseable
  version below the threshold never ends it and is reported as unsupported. The second
  half fails with the packing of C4: the release \<^verbatim>\<open>5.300.0\<close> parses as major 5 and
  minor 300, a version below 6.1, and \<^verbatim>\<open>old_kernel\<close> returns without ending the
  process but returns 0, supported, where the claim and the source's comment
  (return 1 if the kernel is older than 6.1) ask for 1.
\<close>

theorem old_kernel_below_threshold_reported_supported:
  "sscanf_version ''5.300.0'' = Some (5, 300)
   \<and> old_kernel (kernel_release ''5.300.0'') = Inr 0"
  by (simp add: old_kernel_def kernel_release_def kernel_6_5_def sscanf_5_300)

section \<open>Properties of the helpers\<close>

lemmas access_defs = LANDLOCK_ACCESS_FS_EXECUTE_def LANDLOCK_ACCESS_FS_WRITE_FILE_def
  LANDLOCK_ACCESS_FS_READ_FILE_def LANDLOCK_ACCESS_FS_READ_DIR_def
  LANDLOCK_ACCESS_FS_REMOVE_DIR_def LANDLOCK_ACCESS_FS_REMOVE_FILE_def
  LANDLOCK_ACCESS_FS_MAKE_CHAR_def LANDLOCK_ACCESS_FS_MAKE_DIR_def
  LANDLOCK_ACCESS_FS_MAKE_REG_def LANDLOCK_ACCESS_FS_MAKE_SOCK_def
  LANDLOCK_ACCESS_FS_MAKE_FIFO_def LANDLOCK_ACCESS_FS_MAKE_BLOCK_def
  LANDLOCK_ACCESS_FS_MAKE_SYM_def

lemmas sys_defs = ll_create_ruleset_def ll_add_rule_def landlock_restrict_self_def
  sys_open_def sys_close_def sys_access_def sys_prctl_def emit_def

lemma old_kernel_6_5: "old_kernel kernel_6_5 = Inr 0"
  by (simp add: old_kernel_def kernel_6_5_def sscanf_6_5)

lemma old_kernel_unopenable: "old_kernel kernel_unopenable = Inr 0"
  by (simp add: old_kernel_def kernel_unopenable_def kernel_6_5_def sscanf_6_5)

lemma old_kernel_5_15: "old_kernel (kernel_release ''5.15.0-91-generic'') = Inr 1"
  by (simp add: old_kernel_def kernel_release_def kernel_6_5_def sscanf_5_15)

lemma old_kernel_unknown:
  "old_kernel (kernel_release ''unknown'') =
     Inl (Exit (''Error: cannot extract Linux kernel version: #1 SMP'' @ nl) 1)"
  by (simp add: old_kernel_def kernel_release_def kernel_6_5_def sscanf_unknown)

lemma created_append: "created (xs @ ys) = created xs @ created ys"
  by (induction xs rule: created.induct) simp_all

lemma rule_masks_append: "rule_masks (xs @ ys) = rule_masks xs @ rule_masks ys"
  by (induction xs rule: rule_masks.induct) simp_all

lemma opened_append: "opened (xs @ ys) = opened xs @ opened ys"
  by (induction xs rule: opened.induct) simp_all

lemma probed_append: "probed (xs @ ys) = probed xs @ probed ys"
  by (induction xs rule: probed.induct) simp_all

lemma lazy_ruleset_eq:
  "lazy_ruleset k w =
     (if rset_fd w = - 1
      then w\<lparr>rset_fd := k_create_ruleset k (trace w) handled_access_fs,
             trace := trace w @ [CreateRuleset handled_access_fs
                                   (k_create_ruleset k (trace w) handled_access_fs)]\<rparr>
      else w)"
  by (simp add: lazy_ruleset_def ll_create_full_ruleset_def sys_defs Let_def)

lemma ll_read_supported:
  assumes "old_kernel k = Inr 0"
  shows "ll_read k p w =
           Inr (path_rule k (LANDLOCK_ACCESS_FS_READ_FILE OR LANDLOCK_ACCESS_FS_READ_DIR) p w)"
  using assms by (simp add: ll_read_def path_rule_def sys_defs Let_def)

lemma ll_write_supported:
  assumes "old_kernel k = Inr 0"
  shows "ll_write k p w =
           Inr (path_rule k
                  (LANDLOCK_ACCESS_FS_WRITE_FILE OR LANDLOCK_ACCESS_FS_REMOVE_FILE OR
                   LANDLOCK_ACCESS_FS_REMOVE_DIR OR LANDLOCK_ACCESS_FS_MAKE_CHAR OR
                   LANDLOCK_ACCESS_FS_MAKE_DIR OR LANDLOCK_ACCESS_FS_MAKE_REG OR
                   LANDLOCK_ACCESS_FS_MAKE_SYM) p w)"
  using assms by (simp add: ll_write_def path_rule_def sys_defs Let_def)

lemma ll_special_supported:
  assumes "old_kernel k = Inr 0"
  shows "ll_special k p w =
           Inr (path_rule k
                  (LANDLOCK_ACCESS_FS_MAKE_SOCK OR LANDLOCK_ACCESS_FS_MAKE_FIFO OR
                   LANDLOCK_ACCESS_FS_MAKE_BLOCK) p w)"
  using assms by (simp add: ll_special_def path_rule_def sys_defs Let_def)

lemma ll_exec_supported:
  assumes "old_kernel k = Inr 0"
  shows "ll_exec k p w = Inr (path_rule k LANDLOCK_ACCESS_FS_EXECUTE p w)"
  using assms by (simp add: ll_exec_def path_rule_def sys_defs Let_def)

lemma class_helper_supported:
  assumes "old_kernel k = Inr 0"
  shows "class_helper c k p w = Inr (path_rule k (mask_of (class_rights c)) p w)"
  using assms
  by (cases c)
     (simp_all add: ll_read_supported ll_write_supported ll_special_supported ll_exec_supported
        mask_of_def or.assoc)

lemma class_helper_old:
  assumes "old_kernel k = Inr old" and "old \<noteq> 0"
  shows "class_helper c k p w = Inr (1, emit (Stderr warning_old_kernel) w)"
  using assms
  by (cases c) (simp_all add: ll_read_def ll_write_def ll_special_def ll_exec_def)

lemma class_helper_fatal:
  assumes "old_kernel k = Inl e"
  shows "class_helper c k p w = Inl e"
  using assms
  by (cases c) (simp_all add: ll_read_def ll_write_def ll_special_def ll_exec_def)

lemma rights_of_class_mask: "rights_of (mask_of (class_rights c)) = set (class_rights c)"
  by (cases c) (simp_all add: rights_of_def mask_of_def all_fs_access_def access_defs)

lemma mask_within_handled:
  "mask_of (class_rights c) AND handled_access_fs = mask_of (class_rights c)"
  by (cases c) (simp_all add: mask_of_def handled_access_fs_def access_defs)

lemma rights_of_handled: "rights_of handled_access_fs = set all_fs_access"
  by (simp add: rights_of_def handled_access_fs_def all_fs_access_def access_defs)

lemma path_rule_trace:
  "trace (snd (path_rule k m p w)) =
     trace (lazy_ruleset k w) @
       [Open p (k_open k (trace (lazy_ruleset k w)) p),
        AddRule (rset_fd (lazy_ruleset k w)) (k_open k (trace (lazy_ruleset k w)) p) m
          (fst (path_rule k m p w)),
        Close (k_open k (trace (lazy_ruleset k w)) p)]"
  by (simp add: path_rule_def Let_def)

lemma path_rule_fields:
  "rset_fd (snd (path_rule k m p w)) = rset_fd (lazy_ruleset k w)"
  "cfg_lprofile (snd (path_rule k m p w)) = cfg_lprofile w"
  "cfg_homedir (snd (path_rule k m p w)) = cfg_homedir w"
  by (simp_all add: path_rule_def Let_def lazy_ruleset_eq)

lemma path_rule_created:
  "created (trace (snd (path_rule k m p w))) =
     created (trace w) @ (if rset_fd w = - 1 then [handled_access_fs] else [])"
  by (simp add: path_rule_trace created_append lazy_ruleset_eq)

lemma path_rule_rule_masks:
  "rule_masks (trace (snd (path_rule k m p w))) = rule_masks (trace w) @ [m]"
  by (simp add: path_rule_trace rule_masks_append lazy_ruleset_eq)

lemma path_rule_probed:
  "probed (trace (snd (path_rule k m p w))) = probed (trace w)"
  by (simp add: path_rule_trace probed_append lazy_ruleset_eq)

lemma path_rule_rset_fd:
  "rset_fd (snd (path_rule k m p w)) =
     (if rset_fd w = - 1 then k_create_ruleset k (trace w) handled_access_fs else rset_fd w)"
  by (simp add: path_rule_fields lazy_ruleset_eq)

text \<open>
  C8. On a supported kernel each per-class helper submits one rule, and its mask is the
  mask of its class: the union of the flags of the rights the specification's table lists
  for the class, which decodes to exactly those rights (Read: read-file, read-dir; Write:
  write-file, remove-file, remove-dir, make-char, make-dir, make-reg, make-sym; Special:
  make-sock, make-fifo, make-block; Execute: execute).
\<close>

theorem helper_submits_class_mask:
  assumes "old_kernel k = Inr 0"
  shows "\<exists>r w'. class_helper c k path w = Inr (r, w')
           \<and> rule_masks (trace w') = rule_masks (trace w) @ [mask_of (class_rights c)]
           \<and> rights_of (mask_of (class_rights c)) = set (class_rights c)"
proof -
  obtain r w' where rw: "path_rule k (mask_of (class_rights c)) path w = (r, w')"
    by (cases "path_rule k (mask_of (class_rights c)) path w")
  have "rule_masks (trace w') = rule_masks (trace w) @ [mask_of (class_rights c)]"
    using path_rule_rule_masks [of k "mask_of (class_rights c)" path w] rw by simp
  with rw show ?thesis
    by (simp add: class_helper_supported [OF assms] rights_of_class_mask)
qed

theorem helper_submits_class_mask_witness:
  "old_kernel kernel_6_5 = Inr 0
   \<and> (\<exists>r w'. ll_write kernel_6_5 ''/tmp'' world_init = Inr (r, w')
      \<and> rule_masks (trace w') =
          [LANDLOCK_ACCESS_FS_WRITE_FILE OR LANDLOCK_ACCESS_FS_REMOVE_FILE OR
           LANDLOCK_ACCESS_FS_REMOVE_DIR OR LANDLOCK_ACCESS_FS_MAKE_CHAR OR
           LANDLOCK_ACCESS_FS_MAKE_DIR OR LANDLOCK_ACCESS_FS_MAKE_REG OR
           LANDLOCK_ACCESS_FS_MAKE_SYM])
   \<and> rights_of (LANDLOCK_ACCESS_FS_WRITE_FILE OR LANDLOCK_ACCESS_FS_REMOVE_FILE OR
           LANDLOCK_ACCESS_FS_REMOVE_DIR OR LANDLOCK_ACCESS_FS_MAKE_CHAR OR
           LANDLOCK_ACCESS_FS_MAKE_DIR OR LANDLOCK_ACCESS_FS_MAKE_REG OR
           LANDLOCK_ACCESS_FS_MAKE_SYM) =
       {WriteFile, RemoveFile, RemoveDir, MakeChar, MakeDir, MakeReg, MakeSym}"
  using helper_submits_class_mask [OF old_kernel_6_5, of Write "''/tmp''" world_init]
    old_kernel_6_5
  by (auto simp: mask_of_def world_init_def or.assoc)

text \<open>
  C9. On a supported kernel every helper creates the ruleset when \<^verbatim>\<open>rset_fd\<close> is
  \<open>-1\<close>, declaring \<open>handled_access_fs\<close>, and creates none when \<^verbatim>\<open>rset_fd\<close> holds a
  descriptor; the mask of the rule it then adds lies within the declared mask, and the
  declared mask holds all thirteen rights.
\<close>

theorem ruleset_created_lazily:
  assumes "old_kernel k = Inr 0"
  shows "\<exists>r w'. class_helper c k path w = Inr (r, w')
           \<and> created (trace w') =
               created (trace w) @ (if rset_fd w = - 1 then [handled_access_fs] else [])
           \<and> rset_fd w' =
               (if rset_fd w = - 1 then k_create_ruleset k (trace w) handled_access_fs
                else rset_fd w)
           \<and> rule_masks (trace w') = rule_masks (trace w) @ [mask_of (class_rights c)]
           \<and> mask_of (class_rights c) AND handled_access_fs = mask_of (class_rights c)
           \<and> rights_of handled_access_fs =
               {ReadFile, ReadDir, WriteFile, RemoveFile, RemoveDir, MakeChar, MakeDir,
                MakeReg, MakeSock, MakeFifo, MakeBlock, MakeSym, Exec}"
proof -
  obtain r w' where rw: "path_rule k (mask_of (class_rights c)) path w = (r, w')"
    by (cases "path_rule k (mask_of (class_rights c)) path w")
  have "created (trace w') =
          created (trace w) @ (if rset_fd w = - 1 then [handled_access_fs] else [])"
    using path_rule_created [of k "mask_of (class_rights c)" path w] rw by simp
  moreover have "rset_fd w' =
      (if rset_fd w = - 1 then k_create_ruleset k (trace w) handled_access_fs else rset_fd w)"
    using path_rule_rset_fd [of k "mask_of (class_rights c)" path w] rw by simp
  moreover have "rule_masks (trace w') = rule_masks (trace w) @ [mask_of (class_rights c)]"
    using path_rule_rule_masks [of k "mask_of (class_rights c)" path w] rw by simp
  moreover have "rights_of handled_access_fs =
      {ReadFile, ReadDir, WriteFile, RemoveFile, RemoveDir, MakeChar, MakeDir,
       MakeReg, MakeSock, MakeFifo, MakeBlock, MakeSym, Exec}"
    by (simp add: rights_of_handled all_fs_access_def)
  ultimately show ?thesis
    using rw by (simp add: class_helper_supported [OF assms] mask_within_handled)
qed

theorem ruleset_created_lazily_witness:
  "old_kernel kernel_6_5 = Inr 0
   \<and> (\<exists>r w'. ll_read kernel_6_5 ''/etc'' world_init = Inr (r, w')
        \<and> created (trace w') = [handled_access_fs]
        \<and> rset_fd w' = 3
        \<and> rule_masks (trace w') = [LANDLOCK_ACCESS_FS_READ_FILE OR LANDLOCK_ACCESS_FS_READ_DIR])
   \<and> (\<exists>r w'. ll_exec kernel_6_5 ''/opt'' (world_init\<lparr>rset_fd := 3\<rparr>) = Inr (r, w')
        \<and> created (trace w') = []
        \<and> rset_fd w' = 3
        \<and> rule_masks (trace w') = [LANDLOCK_ACCESS_FS_EXECUTE])"
  using ruleset_created_lazily [OF old_kernel_6_5, of Read "''/etc''" world_init]
    ruleset_created_lazily [OF old_kernel_6_5, of Execute "''/opt''" "world_init\<lparr>rset_fd := 3\<rparr>"]
    old_kernel_6_5
  by (auto simp: mask_of_def world_init_def kernel_6_5_def)

text \<open>
  C10. No helper looks at the result of \<^verbatim>\<open>open\<close>: on a supported kernel the helper
  submits the rule with whatever descriptor \<^verbatim>\<open>open\<close> returned (\<open>-1\<close> when the path
  cannot be opened), closes that same descriptor and returns the result of the rule
  submission. On the two other exit paths (old kernel, fatal probe) no path has been
  opened.
\<close>

theorem helper_ignores_open_result:
  fixes k :: kernel and c :: access_class and path :: string and w :: world
  defines "w1 \<equiv> lazy_ruleset k w"
  defines "fd \<equiv> k_open k (trace w1) path"
  defines "r \<equiv> k_add_rule k (trace w1 @ [Open path fd]) (rset_fd w1) fd (mask_of (class_rights c))"
  shows "(old_kernel k = Inr 0 \<longrightarrow>
            class_helper c k path w =
              Inr (r, w1\<lparr>trace := trace w1 @
                         [Open path fd,
                          AddRule (rset_fd w1) fd (mask_of (class_rights c)) r,
                          Close fd]\<rparr>))
       \<and> (\<forall>old. old_kernel k = Inr old \<and> old \<noteq> 0 \<longrightarrow>
             class_helper c k path w = Inr (1, emit (Stderr warning_old_kernel) w))
       \<and> (\<forall>e. old_kernel k = Inl e \<longrightarrow> class_helper c k path w = Inl e)"
  unfolding w1_def fd_def r_def
  by (auto simp: class_helper_supported class_helper_old class_helper_fatal path_rule_def Let_def)

theorem helper_ignores_open_result_witness:
  "old_kernel kernel_unopenable = Inr 0
   \<and> ll_read kernel_unopenable ''/root'' world_init =
       Inr (- 1,
            \<lparr>rset_fd = 3, cfg_lprofile = [], cfg_homedir = Some ''/home/u'',
             trace =
               [CreateRuleset handled_access_fs 3,
                Open ''/root'' (- 1),
                AddRule 3 (- 1) (LANDLOCK_ACCESS_FS_READ_FILE OR LANDLOCK_ACCESS_FS_READ_DIR) (- 1),
                Close (- 1)]\<rparr>)
   \<and> ll_read (kernel_release ''5.15.0-91-generic'') ''/root'' world_init =
       Inr (1, emit (Stderr warning_old_kernel) world_init)
   \<and> ll_read (kernel_release ''unknown'') ''/root'' world_init =
       Inl (Exit (''Error: cannot extract Linux kernel version: #1 SMP'' @ nl) 1)"
  using helper_ignores_open_result [of kernel_unopenable Read "''/root''" world_init]
    helper_ignores_open_result
      [of "kernel_release ''5.15.0-91-generic''" Read "''/root''" world_init]
    helper_ignores_open_result [of "kernel_release ''unknown''" Read "''/root''" world_init]
    old_kernel_unopenable old_kernel_5_15 old_kernel_unknown
  by (simp add: lazy_ruleset_eq world_init_def kernel_unopenable_def kernel_6_5_def mask_of_def)

section \<open>Properties of \<^verbatim>\<open>ll_restrict\<close> and \<^verbatim>\<open>ll_add_profile\<close>\<close>

subsection \<open>The loop over the directives\<close>

lemma select_helper:
  assumes "ll_restrict_select data = Inr (fname, fnc)"
  shows "\<exists>c. fnc = class_helper c"
proof -
  from assms have "fnc = ll_read \<or> fnc = ll_write \<or> fnc = ll_special \<or> fnc = ll_exec"
    by (auto simp: ll_restrict_select_def split: if_splits)
  then show ?thesis
    by (metis class_helper.simps)
qed

lemma walk_step:
  assumes sup: "old_kernel k = Inr 0"
    and sel: "ll_restrict_select data = Inr (fname, class_helper c)"
  shows "ll_restrict_walk k (data # next) w =
           (if k_access k (trace w) fname = 0
            then ll_restrict_walk k next
                   (let rw = path_rule k (mask_of (class_rights c)) fname
                               (emit (Access fname 0) w)
                    in if fst rw \<noteq> 0 then emit (Stderr (error_add_rule fname)) (snd rw)
                       else snd rw)
            else ll_restrict_walk k next (emit (Access fname (k_access k (trace w) fname)) w))"
  using sel
  by (simp add: sys_access_def class_helper_supported [OF sup] Let_def split: prod.splits)

lemma emit_fields:
  "rset_fd (emit e w) = rset_fd w"
  "cfg_lprofile (emit e w) = cfg_lprofile w"
  "cfg_homedir (emit e w) = cfg_homedir w"
  "trace (emit e w) = trace w @ [e]"
  by (simp_all add: emit_def)


lemma walk_total:
  assumes sup: "old_kernel k = Inr 0"
    and wf: "\<forall>d \<in> set ds. well_formed d"
  shows "\<exists>w'. ll_restrict_walk k ds w = Inr w'"
  using wf
proof (induction ds arbitrary: w)
  case Nil
  then show ?case by simp
next
  case (Cons d ds)
  from Cons.prems obtain fname fnc where sel: "ll_restrict_select d = Inr (fname, fnc)"
    by (auto simp: well_formed_def split: sum.splits)
  then obtain c where c: "fnc = class_helper c"
    using select_helper by blast
  from Cons.prems have rest: "\<forall>d \<in> set ds. well_formed d"
    by simp
  show ?case
    using Cons.IH [OF rest] sel c
    by (simp add: walk_step [OF sup] Let_def del: ll_restrict_walk.simps)
qed

lemma walk_invariants:
  assumes sup: "old_kernel k = Inr 0"
    and run: "ll_restrict_walk k ds w = Inr w'"
  shows "cfg_lprofile w' = cfg_lprofile w
       \<and> cfg_homedir w' = cfg_homedir w
       \<and> (rset_fd w \<noteq> - 1 \<longrightarrow> rset_fd w' = rset_fd w)
       \<and> probed (trace w') = probed (trace w) @ map directive_path ds"
  using run
proof (induction ds arbitrary: w)
  case Nil
  then show ?case by simp
next
  case (Cons d ds)
  from Cons.prems obtain fname fnc where sel: "ll_restrict_select d = Inr (fname, fnc)"
    by (auto split: sum.splits)
  then obtain c where c: "fnc = class_helper c"
    using select_helper by blast
  have dp: "directive_path d = fname"
    using sel by (simp add: directive_path_def)
  show ?case
  proof (cases "k_access k (trace w) fname = 0")
    case True
    define w2 where "w2 = (let rw = path_rule k (mask_of (class_rights c)) fname
                               (emit (Access fname 0) w)
                    in if fst rw \<noteq> 0 then emit (Stderr (error_add_rule fname)) (snd rw)
                       else snd rw)"
    have step: "ll_restrict_walk k ds w2 = Inr w'"
      using Cons.prems sel c True
      by (simp add: walk_step [OF sup] w2_def del: ll_restrict_walk.simps)
    have f: "cfg_lprofile w2 = cfg_lprofile w" "cfg_homedir w2 = cfg_homedir w"
      "rset_fd w \<noteq> - 1 \<longrightarrow> rset_fd w2 = rset_fd w"
      "probed (trace w2) = probed (trace w) @ [fname]"
      by (simp_all add: w2_def Let_def emit_fields path_rule_fields(2,3) path_rule_rset_fd
            path_rule_probed probed_append)
    from Cons.IH [OF step] f dp show ?thesis
      by auto
  next
    case False
    define w2 where "w2 = emit (Access fname (k_access k (trace w) fname)) w"
    have step: "ll_restrict_walk k ds w2 = Inr w'"
      using Cons.prems sel c False
      by (simp add: walk_step [OF sup] w2_def del: ll_restrict_walk.simps)
    have f: "cfg_lprofile w2 = cfg_lprofile w" "cfg_homedir w2 = cfg_homedir w"
      "rset_fd w2 = rset_fd w"
      "probed (trace w2) = probed (trace w) @ [fname]"
      by (simp_all add: w2_def emit_fields probed_append)
    from Cons.IH [OF step] f dp show ?thesis
      by auto
  qed
qed

lemma ll_restrict_supported:
  assumes sup: "old_kernel k = Inr 0"
    and walk: "ll_restrict_walk k (cfg_lprofile w) w = Inr w1"
  shows "ll_restrict k flags w =
           (if rset_fd w1 = - 1 then Inr (0, w1)
            else if k_restrict_self k (trace w1 @ [Prctl]) (rset_fd w1) flags \<noteq> 0
            then Inr (k_restrict_self k (trace w1 @ [Prctl]) (rset_fd w1) flags,
                      w1\<lparr>trace := trace w1 @
                            [Prctl,
                             RestrictSelf (rset_fd w1) flags
                               (k_restrict_self k (trace w1 @ [Prctl]) (rset_fd w1) flags)]\<rparr>)
            else Inr (0, w1\<lparr>trace := trace w1 @
                            [Prctl, RestrictSelf (rset_fd w1) flags 0, Close (rset_fd w1)]\<rparr>))"
  using sup walk by (simp add: ll_restrict_def sys_defs Let_def)

subsection \<open>Runs on the example kernels\<close>

lemma kernel_6_5_fields:
  "k_alloc kernel_6_5 tr = True"
  "k_create_ruleset kernel_6_5 tr m = 3"
  "k_open kernel_6_5 tr path = 4"
  "k_add_rule kernel_6_5 tr fd parent_fd m = (if Close fd \<in> set tr then - 1 else 0)"
  "k_access kernel_6_5 tr path = (if path = ''/no/such/path'' then - 1 else 0)"
  "k_restrict_self kernel_6_5 tr fd flags = (if Close fd \<in> set tr then - 1 else 0)"
  by (simp_all add: kernel_6_5_def)

lemma select_read_a: "ll_restrict_select ''landlock.read /a'' = Inr (''/a'', ll_read)"
  by (simp add: ll_restrict_select_def)

lemma select_write_b: "ll_restrict_select ''landlock.write /b'' = Inr (''/b'', ll_write)"
  by (simp add: ll_restrict_select_def)

lemma add_two_directives:
  "ll_add_profiles kernel_6_5 [''landlock.read /a'', ''landlock.write /b''] world_init =
     Inr world_two_directives"
  by (simp add: ll_add_profile_def old_kernel_6_5 alloc_def emit_def world_init_def
        world_two_directives_def kernel_6_5_fields)

lemma restrict_two_directives:
  "ll_restrict kernel_6_5 0 world_two_directives = Inr (0, world_two_restricted)"
  by (simp add: ll_restrict_def old_kernel_6_5 select_read_a select_write_b
        ll_read_supported ll_write_supported path_rule_def lazy_ruleset_eq sys_defs Let_def
        world_two_directives_def world_two_restricted_def mask_of_def or.assoc kernel_6_5_fields)



lemma old_kernel_refusing: "old_kernel kernel_refusing = Inr 0"
  by (simp add: old_kernel_def kernel_refusing_def kernel_6_5_def sscanf_6_5)

lemma well_formed_examples:
  "well_formed ''landlock.read /a''" "well_formed ''landlock.write /b''"
  by (simp_all add: well_formed_def select_read_a select_write_b)

lemma directive_path_examples:
  "directive_path ''landlock.read /a'' = ''/a''" "directive_path ''landlock.write /b'' = ''/b''"
  by (simp_all add: directive_path_def select_read_a select_write_b)

lemma select_missing:
  "ll_restrict_select ''landlock.write /no/such/path'' = Inr (''/no/such/path'', ll_write)"
  by (simp add: ll_restrict_select_def)

text \<open>
  C6. A directive whose path \<^verbatim>\<open>access\<close> reports missing leaves one trace entry, the
  probe itself: no rule is submitted, no helper runs, nothing is written to
  \<^verbatim>\<open>stderr\<close>, and the loop goes on with the next entry.
\<close>

theorem missing_path_skipped:
  assumes "ll_restrict_select data = Inr (fname, fnc)"
    and "k_access k (trace w) fname \<noteq> 0"
  shows "ll_restrict_walk k (data # next) w =
           ll_restrict_walk k next (emit (Access fname (k_access k (trace w) fname)) w)"
  using assms by (simp add: sys_access_def Let_def)

theorem missing_path_skipped_witness:
  "ll_restrict_select ''landlock.write /no/such/path'' = Inr (''/no/such/path'', ll_write)
   \<and> k_access kernel_6_5 (trace world_init) ''/no/such/path'' \<noteq> 0
   \<and> ll_restrict_walk kernel_6_5 [''landlock.write /no/such/path'', ''landlock.read /a''] world_init =
       ll_restrict_walk kernel_6_5 [''landlock.read /a'']
         (emit (Access ''/no/such/path'' (- 1)) world_init)"
proof -
  have a: "k_access kernel_6_5 (trace world_init) ''/no/such/path'' \<noteq> 0"
    by (simp add: kernel_6_5_fields)
  have v: "k_access kernel_6_5 (trace world_init) ''/no/such/path'' = - 1"
    by (simp add: kernel_6_5_fields)
  show ?thesis
    using missing_path_skipped [OF select_missing a, of "[''landlock.read /a'']"] select_missing a v
    by (simp del: ll_restrict_walk.simps)
qed

text \<open>
  C7. With the ruleset open after the loop, a non-zero result of
  \<^verbatim>\<open>landlock_restrict_self\<close> is returned as it is and the descriptor is not closed
  (\<^verbatim>\<open>rset_fd\<close> and the rest of the state are as the loop left them); on the result 0 the
  descriptor is closed and 0 returned.
\<close>

theorem restrict_failure_leaves_descriptor_open:
  fixes k :: kernel and flags :: "32 word" and w w1 :: world
  assumes sup: "old_kernel k = Inr 0"
    and walk: "ll_restrict_walk k (cfg_lprofile w) w = Inr w1"
    and opened: "rset_fd w1 \<noteq> - 1"
  defines "r \<equiv> k_restrict_self k (trace w1 @ [Prctl]) (rset_fd w1) flags"
  shows "(r \<noteq> 0 \<longrightarrow>
            ll_restrict k flags w =
              Inr (r, w1\<lparr>trace := trace w1 @ [Prctl, RestrictSelf (rset_fd w1) flags r]\<rparr>))
       \<and> (r = 0 \<longrightarrow>
            ll_restrict k flags w =
              Inr (0, w1\<lparr>trace := trace w1 @
                           [Prctl, RestrictSelf (rset_fd w1) flags 0, Close (rset_fd w1)]\<rparr>))"
  unfolding r_def using opened by (simp add: ll_restrict_supported [OF sup walk])

theorem restrict_failure_leaves_descriptor_open_witness:
  "old_kernel kernel_refusing = Inr 0
   \<and> ll_restrict_walk kernel_refusing (cfg_lprofile world_open) world_open = Inr world_open
   \<and> rset_fd world_open \<noteq> - 1
   \<and> ll_restrict kernel_refusing 0 world_open =
       Inr (- 1, world_open\<lparr>trace := trace world_open @ [Prctl, RestrictSelf 3 0 (- 1)]\<rparr>)
   \<and> ll_restrict kernel_6_5 0 world_open =
       Inr (0, world_open\<lparr>trace := trace world_open @ [Prctl, RestrictSelf 3 0 0, Close 3]\<rparr>)"
proof -
  have w1: "ll_restrict_walk kernel_refusing (cfg_lprofile world_open) world_open = Inr world_open"
    by (simp add: world_open_def world_init_def)
  have w2: "ll_restrict_walk kernel_6_5 (cfg_lprofile world_open) world_open = Inr world_open"
    by (simp add: world_open_def world_init_def)
  have o: "rset_fd world_open \<noteq> - 1"
    by (simp add: world_open_def)
  have r1: "k_restrict_self kernel_refusing (trace world_open @ [Prctl]) (rset_fd world_open) 0 = - 1"
    by (simp add: kernel_refusing_def)
  have r2: "k_restrict_self kernel_6_5 (trace world_open @ [Prctl]) (rset_fd world_open) 0 = 0"
    by (simp add: kernel_6_5_def world_open_def)
  have f: "rset_fd world_open = 3"
    by (simp add: world_open_def)
  show ?thesis
    using restrict_failure_leaves_descriptor_open [OF old_kernel_refusing w1 o, of 0]
      restrict_failure_leaves_descriptor_open [OF old_kernel_6_5 w2 o, of 0]
      old_kernel_refusing w1 o r1 r2 f
    by simp
qed




subsection \<open>The order of the directives\<close>

lemma add_profile_supported:
  assumes sup: "old_kernel k = Inr 0"
    and add: "ll_add_profile k d w = Inr w'"
  shows "cfg_lprofile w' = d # cfg_lprofile w"
  using add
  by (auto simp: ll_add_profile_def sup alloc_def emit_def split: if_splits)

lemma add_profiles_supported:
  assumes sup: "old_kernel k = Inr 0"
    and adds: "ll_add_profiles k ds w = Inr w'"
  shows "cfg_lprofile w' = rev ds @ cfg_lprofile w"
  using adds
proof (induction ds arbitrary: w)
  case Nil
  then show ?case by simp
next
  case (Cons d ds)
  from Cons.prems obtain wm where one: "ll_add_profile k d w = Inr wm"
    and rest: "ll_add_profiles k ds wm = Inr w'"
    by (cases "ll_add_profile k d w") auto
  from Cons.IH [OF rest] add_profile_supported [OF sup one] show ?case
    by simp
qed

text \<open>
  C2. The claim: the list is stored in insertion order and \<^verbatim>\<open>ll_restrict\<close> processes
  the directives in the order they were added. On \<open>kernel_6_5\<close>, adding
  \<^verbatim>\<open>landlock.read /a\<close> and then \<^verbatim>\<open>landlock.write /b\<close> stores the second in front of the
  first, and \<^verbatim>\<open>ll_restrict\<close> probes \<^verbatim>\<open>/b\<close> before \<^verbatim>\<open>/a\<close>.
\<close>

theorem insertion_order_counterexample:
  "ll_add_profiles kernel_6_5 [''landlock.read /a'', ''landlock.write /b''] world_init =
     Inr world_two_directives
   \<and> cfg_lprofile world_two_directives = [''landlock.write /b'', ''landlock.read /a'']
   \<and> ll_restrict kernel_6_5 0 world_two_directives = Inr (0, world_two_restricted)
   \<and> probed (trace world_two_restricted) = [''/b'', ''/a'']
   \<and> map directive_path [''landlock.read /a'', ''landlock.write /b''] = [''/a'', ''/b'']
   \<and> probed (trace world_two_restricted) \<noteq>
       map directive_path [''landlock.read /a'', ''landlock.write /b'']"
proof -
  have p: "probed (trace world_two_restricted) = [''/b'', ''/a'']"
    by (simp add: world_two_restricted_def)
  have l: "cfg_lprofile world_two_directives = [''landlock.write /b'', ''landlock.read /a'']"
    by (simp add: world_two_directives_def)
  show ?thesis
    using add_two_directives restrict_two_directives p l
    by (simp add: directive_path_examples del: ll_add_profiles.simps)
qed

text \<open>
  C2, as amended. On a supported kernel \<^verbatim>\<open>ll_add_profile\<close> puts each directive in front
  of the list, so after the calls for \<open>d1, ..., dn\<close> the list holds \<open>dn, ..., d1\<close> followed
  by what it held before; \<^verbatim>\<open>ll_restrict\<close> walks it from the head, probing the paths in
  that order: newest first.
\<close>

theorem directives_walked_newest_first:
  assumes sup: "old_kernel k = Inr 0"
    and adds: "ll_add_profiles k ds w = Inr w'"
    and wf: "\<forall>d \<in> set ds \<union> set (cfg_lprofile w). well_formed d"
  shows "cfg_lprofile w' = rev ds @ cfg_lprofile w
       \<and> (\<exists>r w''. ll_restrict k flags w' = Inr (r, w'')
             \<and> probed (trace w'') =
                 probed (trace w') @ map directive_path (rev ds @ cfg_lprofile w))"
proof -
  have lp: "cfg_lprofile w' = rev ds @ cfg_lprofile w"
    using add_profiles_supported [OF sup adds] .
  with wf have "\<forall>d \<in> set (cfg_lprofile w'). well_formed d"
    by auto
  then obtain w1 where walk: "ll_restrict_walk k (cfg_lprofile w') w' = Inr w1"
    using walk_total [OF sup] by blast
  have pr: "probed (trace w1) = probed (trace w') @ map directive_path (cfg_lprofile w')"
    using walk_invariants [OF sup walk] by simp
  obtain r w'' where res: "ll_restrict k flags w' = Inr (r, w'')"
    and tr: "probed (trace w'') = probed (trace w1)"
    using ll_restrict_supported [OF sup walk, of flags]
    by (cases "rset_fd w1 = - 1";
        cases "k_restrict_self k (trace w1 @ [Prctl]) (rset_fd w1) flags = 0")
       (auto simp: probed_append)
  with pr lp show ?thesis
    by simp
qed

theorem directives_walked_newest_first_witness:
  "old_kernel kernel_6_5 = Inr 0
   \<and> ll_add_profiles kernel_6_5 [''landlock.read /a'', ''landlock.write /b''] world_init =
       Inr world_two_directives
   \<and> well_formed ''landlock.read /a'' \<and> well_formed ''landlock.write /b''
   \<and> cfg_lprofile world_two_directives = [''landlock.write /b'', ''landlock.read /a'']
   \<and> ll_restrict kernel_6_5 0 world_two_directives = Inr (0, world_two_restricted)
   \<and> probed (trace world_two_restricted) =
       probed (trace world_two_directives) @ [''/b'', ''/a'']"
proof -
  have wf: "\<forall>d \<in> set [''landlock.read /a'', ''landlock.write /b''] \<union> set (cfg_lprofile world_init).
              well_formed d"
    by (simp add: well_formed_examples world_init_def)
  show ?thesis
    using directives_walked_newest_first [OF old_kernel_6_5 add_two_directives wf, of 0]
      old_kernel_6_5 add_two_directives well_formed_examples restrict_two_directives
    by (simp add: directive_path_examples world_init_def)
qed

section \<open>Properties of the baseline policy\<close>

lemma or_chain_append:
  assumes "or_chain k pre w = Inr (False, w1)"
  shows "or_chain k (pre @ rest) w = or_chain k rest w1"
  using assms
proof (induction pre arbitrary: w)
  case Nil
  then show ?case by simp
next
  case (Cons a pre)
  obtain fnc path where a: "a = (fnc, path)"
    by (cases a)
  from Cons.prems a obtain wm where step: "fnc k path w = Inr (0, wm)"
    and rest: "or_chain k pre wm = Inr (False, w1)"
    by (cases "fnc k path w") (auto split: if_splits)
  from Cons.IH [OF rest] step a show ?case
    by simp
qed

lemma kernel_tmp_refused_fields:
  "k_alloc kernel_tmp_refused tr = True"
  "k_create_ruleset kernel_tmp_refused tr m = 3"
  "k_open kernel_tmp_refused tr path = 4"
  "k_add_rule kernel_tmp_refused tr fd parent_fd m =
     (if opened tr \<noteq> [] \<and> last (opened tr) = ''/tmp'' then - 1 else 0)"
  by (simp_all add: kernel_tmp_refused_def kernel_6_5_def)

lemma kernel_no_landlock_fields:
  "k_alloc kernel_no_landlock tr = True"
  "k_create_ruleset kernel_no_landlock tr m = - 1"
  "k_open kernel_no_landlock tr path = 4"
  "k_add_rule kernel_no_landlock tr fd parent_fd m = - 1"
  by (simp_all add: kernel_no_landlock_def kernel_6_5_def)

lemma old_kernel_tmp_refused: "old_kernel kernel_tmp_refused = Inr 0"
  by (simp add: old_kernel_def kernel_tmp_refused_def kernel_6_5_def sscanf_6_5)

lemma old_kernel_no_landlock: "old_kernel kernel_no_landlock = Inr 0"
  by (simp add: old_kernel_def kernel_no_landlock_def kernel_6_5_def sscanf_6_5)

lemma home_tmp_refused: "ll_basic_system_home kernel_tmp_refused world_init = Inr world_home"
  by (simp add: ll_basic_system_home_def lazy_ruleset_eq sys_defs alloc_def Let_def
        world_init_def world_home_def kernel_tmp_refused_fields mask_of_def or.assoc)

lemma root_tmp_refused:
  "or_chain kernel_tmp_refused [(ll_read, ''/''), (ll_special, ''/'')] world_home =
     Inr (False, world_root)"
  by (simp add: ll_read_supported ll_special_supported old_kernel_tmp_refused path_rule_def
        lazy_ruleset_eq Let_def world_home_def world_root_def mask_of_def or.assoc
        kernel_tmp_refused_fields)

lemma tmp_tmp_refused: "ll_write kernel_tmp_refused ''/tmp'' world_root = Inr (- 1, world_tmp)"
  by (simp add: ll_write_supported old_kernel_tmp_refused path_rule_def
        lazy_ruleset_eq Let_def world_home_def world_root_def world_tmp_def mask_of_def or.assoc
        kernel_tmp_refused_fields opened_append)

lemma basic_no_landlock: "ll_basic_system kernel_no_landlock world_init = Inr world_no_landlock"
  by (simp add: ll_basic_system_def old_kernel_no_landlock ll_basic_system_home_def basic_chain_def
        ll_read_supported path_rule_def
        lazy_ruleset_eq sys_defs alloc_def Let_def
        world_init_def world_no_landlock_def kernel_no_landlock_fields mask_of_def or.assoc)

text \<open>
  C3. The claim: in \<^verbatim>\<open>ll_basic_system\<close> a helper's failure does not keep the remaining
  helpers from running. On \<open>kernel_no_landlock\<close> the first helper of the chain,
  \<^verbatim>\<open>ll_read("/")\<close>, fails, and no later helper runs: \<^verbatim>\<open>/tmp\<close> is in the list and is
  never opened.
\<close>

theorem basic_system_best_effort_counterexample:
  "ll_basic_system kernel_no_landlock world_init = Inr world_no_landlock
   \<and> opened (trace world_no_landlock) = [''/home/u'', ''/'']
   \<and> ''/tmp'' \<in> set (map snd (basic_chain (rundir kernel_no_landlock)))
   \<and> ''/tmp'' \<notin> set (opened (trace world_no_landlock))"
proof -
  have o: "opened (trace world_no_landlock) = [''/home/u'', ''/'']"
    by (simp add: world_no_landlock_def)
  have m: "''/tmp'' \<in> set (map snd (basic_chain (rundir kernel_no_landlock)))"
    by (simp add: basic_chain_def)
  show ?thesis
    using basic_no_landlock o m by simp
qed

text \<open>
  C3, as amended. The helper calls of \<^verbatim>\<open>ll_basic_system\<close> are the operands of one
  \<^verbatim>\<open>||\<close> chain: they run in source order up to the first one that returns non-zero;
  the state \<^verbatim>\<open>ll_basic_system\<close> ends in is the state that helper left, with one error
  line added, so no helper after it is invoked.
\<close>

theorem basic_system_stops_at_first_failure:
  assumes sup: "old_kernel k = Inr 0"
    and home: "ll_basic_system_home k w = Inr w6"
    and chain: "basic_chain (rundir k) = pre @ (fnc, path) # post"
    and before: "or_chain k pre w6 = Inr (False, w1)"
    and fails: "fnc k path w1 = Inr (r, w2)"
    and nonzero: "r \<noteq> 0"
  shows "ll_basic_system k w = Inr (emit (Stderr error_basic) w2)"
proof -
  have "or_chain k (basic_chain (rundir k)) w6 = or_chain k ((fnc, path) # post) w1"
    using or_chain_append [OF before] chain by simp
  also have "\<dots> = Inr (True, w2)"
    using fails nonzero by simp
  finally show ?thesis
    using sup home by (simp add: ll_basic_system_def)
qed

theorem basic_system_stops_at_first_failure_witness:
  "old_kernel kernel_tmp_refused = Inr 0
   \<and> ll_basic_system_home kernel_tmp_refused world_init = Inr world_home
   \<and> or_chain kernel_tmp_refused [(ll_read, ''/''), (ll_special, ''/'')] world_home =
       Inr (False, world_root)
   \<and> ll_write kernel_tmp_refused ''/tmp'' world_root = Inr (- 1, world_tmp)
   \<and> ll_basic_system kernel_tmp_refused world_init = Inr (emit (Stderr error_basic) world_tmp)
   \<and> opened (trace (emit (Stderr error_basic) world_tmp)) = [''/home/u'', ''/'', ''/'', ''/tmp'']"
proof -
  have chain: "basic_chain (rundir kernel_tmp_refused) =
      [(ll_read, ''/''), (ll_special, ''/'')] @ (ll_write, ''/tmp'') # drop 3 (basic_chain (rundir kernel_tmp_refused))"
    by (simp add: basic_chain_def)
  have nz: "(- 1 :: int) \<noteq> 0"
    by simp
  have o: "opened (trace (emit (Stderr error_basic) world_tmp)) = [''/home/u'', ''/'', ''/'', ''/tmp'']"
    by (simp add: emit_def world_tmp_def world_root_def world_home_def)
  show ?thesis
    using basic_system_stops_at_first_failure
        [OF old_kernel_tmp_refused home_tmp_refused chain root_tmp_refused tmp_tmp_refused nz]
      old_kernel_tmp_refused home_tmp_refused root_tmp_refused tmp_tmp_refused o
    by simp
qed

end
